theory Spec2Isabelle
  imports Complex_Main
begin

section \<open>Spectra of pbrt: an embedding of \<^verbatim>\<open>src/pbrt/util/spectrum.cpp\<close>\<close>

text \<open>
  The C++ type \<^verbatim>\<open>Float\<close> is modelled by \<^typ>\<open>real\<close>: sums, products and comparisons
  are the exact ones, and rounding, infinities and NaN do not exist in the model. The
  one exception is the conversion of an \<^verbatim>\<open>int\<close> to \<^verbatim>\<open>float\<close> in the constructor of
  \<^verbatim>\<open>DenselySampledSpectrum\<close>, which is rounded as the machine rounds it.
  Sizes and indices of type \<^verbatim>\<open>size_t\<close> are natural numbers with the 64-bit wrap-around
  written out where the source subtracts or converts. A vector is a list.

  What stops the program is a value of the type \<open>error\<close>: a failed \<^verbatim>\<open>CHECK\<close> macro
  (a fatal assertion), an index outside its array, a floating-point division whose
  divisor is zero (which the source guards against where a divisor can be zero), an \<^verbatim>\<open>int\<close>
  expression that overflows, and an allocation that cannot be served.
\<close>

datatype error = CheckFailed | OutOfBounds | DivisionByZero | IntOverflow | AllocationFailed

subsection \<open>Machine sizes\<close>

text \<open>The value of a C++ integer expression converted to the 64-bit unsigned \<^verbatim>\<open>size_t\<close>.\<close>

definition size_t_of :: "int \<Rightarrow> nat" where
  "size_t_of x = nat (x mod 2 ^ 64)"

subsection \<open>PiecewiseLinearSpectrum\<close>

text \<open>
  \<^verbatim>\<open>class PiecewiseLinearSpectrum { pstd::vector<Float> lambda, v; }\<close>
\<close>

record PiecewiseLinearSpectrum =
  pls_lambda :: "real list"
  pls_v :: "real list"

text \<open>
  The loop of the constructor,
  \<^verbatim>\<open>for (size_t i = 0; i < lambda.size() - 1; ++i) CHECK_LT(lambda[i], lambda[i + 1]);\<close>
  The bound \<^verbatim>\<open>lambda.size() - 1\<close> is an unsigned subtraction. An index at or beyond the
  size of the vector is \<open>OutOfBounds\<close>. The increment cannot wrap, since \<open>i\<close> is below
  a \<^verbatim>\<open>size_t\<close> value when it is incremented.
\<close>

function PiecewiseLinearSpectrum_check :: "real list \<Rightarrow> nat \<Rightarrow> error + unit" where
  "PiecewiseLinearSpectrum_check lam i =
     (if i < size_t_of (int (length lam) - 1) then
        (if i < length lam \<and> i + 1 < length lam then
           (if lam ! i < lam ! (i + 1) then PiecewiseLinearSpectrum_check lam (i + 1)
            else Inl CheckFailed)
         else Inl OutOfBounds)
      else Inr ())"
  by pat_completeness auto
termination
  by (relation "measure (\<lambda>(lam, i). length lam - i)") auto

declare PiecewiseLinearSpectrum_check.simps [simp del]

text \<open>
  \<^verbatim>\<open>PiecewiseLinearSpectrum(span l, span values, alloc)\<close>: the members are copied from the
  two spans, then \<^verbatim>\<open>CHECK_EQ(lambda.size(), v.size())\<close>, then the loop.
\<close>

definition PiecewiseLinearSpectrum_ctor ::
    "real list \<Rightarrow> real list \<Rightarrow> error + PiecewiseLinearSpectrum" where
  "PiecewiseLinearSpectrum_ctor l vals =
     (let s = \<lparr>pls_lambda = l, pls_v = vals\<rparr> in
      if length (pls_lambda s) \<noteq> length (pls_v s) then Inl CheckFailed
      else (case PiecewiseLinearSpectrum_check (pls_lambda s) 0 of
              Inl e \<Rightarrow> Inl e
            | Inr _ \<Rightarrow> Inr s))"

text \<open>
  Modelled from the spec: \<^verbatim>\<open>FindInterval(sz, pred)\<close> is declared in \<^verbatim>\<open>pbrt/util/math.h\<close>, which is
  not among the sources. The spec describes it as locating a segment \<open>via the largest index
  whose\<close> value \<open>is <= u (binary search predicate)\<close>; the index is one of a segment, so it
  lies in \<open>0 .. sz - 2\<close>, and it is \<open>0\<close> when the predicate holds nowhere.
\<close>

definition FindInterval :: "nat \<Rightarrow> (nat \<Rightarrow> bool) \<Rightarrow> nat" where
  "FindInterval sz pred = (case filter pred (rev [0..<sz - 1]) of [] \<Rightarrow> 0 | i # _ \<Rightarrow> i)"

text \<open>
  Modelled from the spec: \<^verbatim>\<open>Lerp(t, a, b)\<close> is declared in \<^verbatim>\<open>pbrt/util/math.h\<close>, which is not
  among the sources; it is the linear interpolation between \<open>a\<close> (at \<open>t = 0\<close>) and \<open>b\<close>
  (at \<open>t = 1\<close>).
\<close>

definition Lerp :: "real \<Rightarrow> real \<Rightarrow> real \<Rightarrow> real" where
  "Lerp t a b = (1 - t) * a + t * b"

text \<open>
  \<^verbatim>\<open>Float PiecewiseLinearSpectrum::operator()(Float l) const\<close>. The \<^verbatim>\<open>DCHECK\<close> of the source
  is compiled out of release builds and is not part of the model.
\<close>

definition PiecewiseLinearSpectrum_eval :: "PiecewiseLinearSpectrum \<Rightarrow> real \<Rightarrow> real" where
  "PiecewiseLinearSpectrum_eval s l =
     (if pls_lambda s = [] then 0
      else if l \<le> hd (pls_lambda s) then hd (pls_v s)
      else if l \<ge> last (pls_lambda s) then last (pls_v s)
      else
        (let offset = FindInterval (length (pls_lambda s)) (\<lambda>index. pls_lambda s ! index \<le> l);
             t = (l - pls_lambda s ! offset) / (pls_lambda s ! (offset + 1) - pls_lambda s ! offset)
         in Lerp t (pls_v s ! offset) (pls_v s ! (offset + 1))))"

subsection \<open>Reading a spectrum from a file\<close>

text \<open>The three diagnostics of \<^verbatim>\<open>PiecewiseLinearSpectrum::Read\<close>, with their arguments.\<close>

datatype warning =
    UnableToRead string
  | ExtraValue string
  | NotIncreasing string nat real real

text \<open>
  The loop of \<^verbatim>\<open>Read\<close> over the pairs of the file:
  \<^verbatim>\<open>for (size_t i = 0; i < vals->size() / 2; ++i) {
      if (i > 0 && (*vals)[2 * i] <= lambda.back()) { Warning(...); return {}; }
      lambda.push_back((*vals)[2 * i]);  v.push_back((*vals)[2 * i + 1]); }\<close>
\<close>

function Read_pairs ::
    "string \<Rightarrow> real list \<Rightarrow> nat \<Rightarrow> real list \<Rightarrow> real list \<Rightarrow> warning + real list \<times> real list" where
  "Read_pairs fn vals i lam v =
     (if i < length vals div 2 then
        (if i > 0 \<and> vals ! (2 * i) \<le> last lam
         then Inl (NotIncreasing fn i (last lam) (vals ! (2 * i)))
         else Read_pairs fn vals (i + 1) (lam @ [vals ! (2 * i)]) (v @ [vals ! (2 * i + 1)]))
      else Inr (lam, v))"
  by pat_completeness auto
termination
  by (relation "measure (\<lambda>(fn, vals, i, lam, v). length vals div 2 - i)") auto

declare Read_pairs.simps [simp del]

text \<open>
  \<^verbatim>\<open>pstd::optional<SpectrumHandle> PiecewiseLinearSpectrum::Read(const std::string &fn, alloc)\<close>.
  \<^verbatim>\<open>ReadFloatFile\<close> belongs to \<^verbatim>\<open>pbrt/util/file.h\<close> and is a parameter: it gives the numbers
  of a file, or nothing when the file cannot be read. The result of \<open>Read\<close> is the list of
  warnings it has emitted with the optional spectrum it returns, or the error that stopped
  the constructor it calls.
\<close>

definition Read ::
    "(string \<Rightarrow> real list option) \<Rightarrow> string
       \<Rightarrow> error + warning list \<times> PiecewiseLinearSpectrum option" where
  "Read ReadFloatFile fn =
     (case ReadFloatFile fn of
        None \<Rightarrow> Inr ([UnableToRead fn], None)
      | Some vals \<Rightarrow>
          if length vals mod 2 \<noteq> 0 then Inr ([ExtraValue fn], None)
          else (case Read_pairs fn vals 0 [] [] of
                  Inl w \<Rightarrow> Inr ([w], None)
                | Inr (lam, v) \<Rightarrow>
                    (case PiecewiseLinearSpectrum_ctor lam v of
                       Inl e \<Rightarrow> Inl e
                     | Inr handle \<Rightarrow> Inr ([], Some handle))))"

subsection \<open>Sampled wavelengths, sampled spectra and the spectrum handle\<close>

text \<open>
  \<^verbatim>\<open>SampledWavelengths\<close> holds two arrays of \<^verbatim>\<open>NSpectrumSamples\<close> numbers, \<^verbatim>\<open>lambda\<close> and
  \<^verbatim>\<open>pdf\<close>; \<^verbatim>\<open>SampledSpectrum\<close> holds one, \<^verbatim>\<open>v\<close>. The compile-time constant
  \<^verbatim>\<open>NSpectrumSamples\<close> is declared in \<^verbatim>\<open>spectrum.h\<close>, which is not among the sources: it
  is a field of the record of global constants below.
\<close>

record SampledWavelengths =
  sw_lambda :: "real list"
  sw_pdf :: "real list"

type_synonym SampledSpectrum = "real list"

text \<open>
  \<^verbatim>\<open>SpectrumHandle\<close> is a tagged pointer to one of the eight kinds of spectrum; its two
  dispatching methods, \<^verbatim>\<open>operator()\<close> and \<^verbatim>\<open>Sample\<close>, are defined in \<^verbatim>\<open>spectrum.h\<close>.
  A handle is represented by what these two methods compute for the spectrum it points to.
\<close>

record SpectrumHandle =
  sh_eval :: "real \<Rightarrow> real"
  sh_Sample :: "SampledWavelengths \<Rightarrow> SampledSpectrum"

text \<open>
  Modelled from the spec: the arithmetic of \<^verbatim>\<open>SampledSpectrum\<close> (\<^verbatim>\<open>spectrum.h\<close>) is
  component-wise: the product of two sampled spectra, and a sampled spectrum times a number.
\<close>

definition SampledSpectrum_times :: "SampledSpectrum \<Rightarrow> SampledSpectrum \<Rightarrow> SampledSpectrum" where
  "SampledSpectrum_times a b = map2 (*) a b"

definition SampledSpectrum_scaled :: "real \<Rightarrow> SampledSpectrum \<Rightarrow> SampledSpectrum" where
  "SampledSpectrum_scaled c a = map ((*) c) a"

subsection \<open>Global constants and tables\<close>

text \<open>
  The constants \<^verbatim>\<open>LambdaMin\<close>, \<^verbatim>\<open>LambdaMax\<close> and \<^verbatim>\<open>NSpectrumSamples\<close> are declared in
  \<^verbatim>\<open>spectrum.h\<close>; the namespace \<^verbatim>\<open>SPDs\<close> holds the CIE matching curves \<^verbatim>\<open>X()\<close>, \<^verbatim>\<open>Y()\<close>,
  \<^verbatim>\<open>Z()\<close>, the constant \<^verbatim>\<open>CIE_Y_integral\<close> and the map \<^verbatim>\<open>namedSPDs\<close> from names to spectra.
  The constants and the numeric tables are inputs of the model: one record holds them. The
  entries of the \<^verbatim>\<open>std::map\<close> are listed in the order in which the map is iterated.
\<close>

record Globals =
  LambdaMin :: real
  LambdaMax :: real
  NSpectrumSamples :: nat
  CIE_Y_integral :: real
  SPDs_X :: SpectrumHandle
  SPDs_Y :: SpectrumHandle
  SPDs_Z :: SpectrumHandle
  namedSPDs :: "(string \<times> SpectrumHandle) list"

subsection \<open>Blackbody, scaled and product spectra\<close>

text \<open>
  \<^verbatim>\<open>Float Blackbody(Float lambda, Float T)\<close>. \<^verbatim>\<open>Pow<5>(l)\<close> is the fifth power. The
  \<^verbatim>\<open>CHECK(!std::isnan(Le))\<close> of the source has no counterpart: a real number is never NaN.
\<close>

definition Blackbody :: "real \<Rightarrow> real \<Rightarrow> real" where
  "Blackbody lambda T =
     (if T \<le> 0 then 0
      else
        (let c = 299792458;
             h = 6.62606957 / 10 ^ 34;
             kb = 1.3806488 / 10 ^ 23;
             l = lambda * (1 / 10 ^ 9);
             Le = (2 * h * c * c) / (l ^ 5 * (exp ((h * c) / (l * kb * T)) - 1))
         in Le))"

record BlackbodySpectrum =
  bb_T :: real
  bb_scale :: real

text \<open>
  \<^verbatim>\<open>for (int i = 0; i < NSpectrumSamples; ++i) s[i] = scale * Blackbody(lambda[i], T);\<close>
\<close>

definition BlackbodySpectrum_Sample ::
    "Globals \<Rightarrow> BlackbodySpectrum \<Rightarrow> SampledWavelengths \<Rightarrow> SampledSpectrum" where
  "BlackbodySpectrum_Sample g b lam =
     map (\<lambda>i. bb_scale b * Blackbody (sw_lambda lam ! i) (bb_T b)) [0..<NSpectrumSamples g]"

record ScaledSpectrum =
  sc_scale :: real
  sc_s :: SpectrumHandle

definition ScaledSpectrum_Sample :: "ScaledSpectrum \<Rightarrow> SampledWavelengths \<Rightarrow> SampledSpectrum" where
  "ScaledSpectrum_Sample sp lam = SampledSpectrum_scaled (sc_scale sp) (sh_Sample (sc_s sp) lam)"

record ProductSpectrum =
  ps_s1 :: SpectrumHandle
  ps_s2 :: SpectrumHandle

definition ProductSpectrum_Sample :: "ProductSpectrum \<Rightarrow> SampledWavelengths \<Rightarrow> SampledSpectrum" where
  "ProductSpectrum_Sample sp lam =
     SampledSpectrum_times (sh_Sample (ps_s1 sp) lam) (sh_Sample (ps_s2 sp) lam)"

subsection \<open>DenselySampledSpectrum\<close>

record DenselySampledSpectrum =
  ds_lambdaMin :: int
  ds_lambdaMax :: int
  ds_v :: "real list"

text \<open>
  The constructor computes with the 32-bit type \<^verbatim>\<open>int\<close>. An \<^verbatim>\<open>int\<close> expression whose exact
  value is outside the range of the type overflows, which C++ leaves undefined: the model
  stops there with \<open>IntOverflow\<close>.
\<close>

definition int_range :: "int \<Rightarrow> bool" where
  "int_range x \<longleftrightarrow> - (2 ^ 31) \<le> x \<and> x < 2 ^ 31"

text \<open>
  The argument \<^verbatim>\<open>lambda + 0.5f\<close> of the spectrum is computed in the 32-bit type \<^verbatim>\<open>float\<close>,
  whatever \<^verbatim>\<open>Float\<close> is: the \<^verbatim>\<open>int\<close> is converted to \<^verbatim>\<open>float\<close>, and the sum is a
  \<^verbatim>\<open>float\<close>. A \<^verbatim>\<open>float\<close> has a significand of 24 bits and is rounded to nearest, ties to
  even. \<open>rne\<close> is that rounding of a real number to an integer, \<open>binary32_ulp\<close> is the
  distance between neighbouring \<^verbatim>\<open>float\<close> values from \<open>2 ^ 23\<close> up to \<open>2 ^ 32\<close>, and
  \<open>binary32_round\<close> is the \<^verbatim>\<open>float\<close> nearest to a multiple of one half below \<open>2 ^ 32\<close> in
  magnitude (below \<open>2 ^ 23\<close> every multiple of one half is a \<^verbatim>\<open>float\<close>).
\<close>

definition rne :: "real \<Rightarrow> int" where
  "rne y =
     (let f = \<lfloor>y\<rfloor>; r = y - of_int f in
      if r < 1 / 2 then f else if 1 / 2 < r then f + 1 else if even f then f else f + 1)"

definition binary32_ulp :: "real \<Rightarrow> real" where
  "binary32_ulp x =
     (if \<bar>x\<bar> < 2 ^ 24 then 1 else if \<bar>x\<bar> < 2 ^ 25 then 2 else if \<bar>x\<bar> < 2 ^ 26 then 4
      else if \<bar>x\<bar> < 2 ^ 27 then 8 else if \<bar>x\<bar> < 2 ^ 28 then 16 else if \<bar>x\<bar> < 2 ^ 29 then 32
      else if \<bar>x\<bar> < 2 ^ 30 then 64 else if \<bar>x\<bar> < 2 ^ 31 then 128 else 256)"

definition binary32_round :: "real \<Rightarrow> real" where
  "binary32_round x =
     (if \<bar>x\<bar> < 2 ^ 23 then x else binary32_ulp x * of_int (rne (x / binary32_ulp x)))"

text \<open>The value of \<^verbatim>\<open>lambda + 0.5f\<close> for an \<^verbatim>\<open>int lambda\<close>.\<close>

definition lambda_plus_half :: "int \<Rightarrow> real" where
  "lambda_plus_half lambda = binary32_round (binary32_round (real_of_int lambda) + 0.5)"

text \<open>
  The member \<^verbatim>\<open>v\<close> is a \<^verbatim>\<open>pstd::vector<Float>\<close>, declared in \<^verbatim>\<open>pstd.h\<close>, which is not among
  the sources. A vector of \<open>n\<close> numbers of at least four bytes each needs \<open>4 * n\<close> bytes: a
  request that does not fit the 64-bit address space cannot be served, and the program dies
  in the allocation. A request that fits is served, with zeros.
\<close>

definition vector_of_zeros :: "nat \<Rightarrow> error + real list" where
  "vector_of_zeros n = (if 2 ^ 64 \<le> 4 * n then Inl AllocationFailed else Inr (replicate n 0))"

text \<open>
  The loop of the constructor,
  \<^verbatim>\<open>for (int lambda = lambdaMin; lambda <= lambdaMax; ++lambda)
      v[lambda - lambdaMin] = s(lambda + 0.5f);\<close>
  The index is an \<^verbatim>\<open>int\<close> converted to \<^verbatim>\<open>size_t\<close>; the increment is an \<^verbatim>\<open>int\<close> expression.
\<close>

function DenselySampledSpectrum_fill ::
    "SpectrumHandle \<Rightarrow> int \<Rightarrow> int \<Rightarrow> int \<Rightarrow> real list \<Rightarrow> error + real list" where
  "DenselySampledSpectrum_fill s lambdaMin lambdaMax lambda v =
     (if lambda \<le> lambdaMax then
        (if \<not> int_range (lambda - lambdaMin) then Inl IntOverflow
         else
           (let idx = size_t_of (lambda - lambdaMin) in
            if \<not> idx < length v then Inl OutOfBounds
            else if \<not> int_range (lambda + 1) then Inl IntOverflow
            else DenselySampledSpectrum_fill s lambdaMin lambdaMax (lambda + 1)
                   (v[idx := sh_eval s (lambda_plus_half lambda)])))
      else Inr v)"
  by pat_completeness auto
termination
  by (relation "measure (\<lambda>(s, lambdaMin, lambdaMax, lambda, v). nat (lambdaMax + 1 - lambda))")
    auto

declare DenselySampledSpectrum_fill.simps [simp del]

text \<open>
  \<^verbatim>\<open>DenselySampledSpectrum(SpectrumHandle s, int lambdaMin, int lambdaMax, alloc)
      : lambdaMin(lambdaMin), lambdaMax(lambdaMax), v(lambdaMax - lambdaMin + 1, alloc) {
      CHECK_GE(lambdaMax, lambdaMin);  for ... }\<close>
  The member \<^verbatim>\<open>v\<close> is initialised first: the count \<^verbatim>\<open>lambdaMax - lambdaMin + 1\<close> is computed
  in \<^verbatim>\<open>int\<close> and converted to \<^verbatim>\<open>size_t\<close>, and the vector is allocated. Only then does the
  body run \<^verbatim>\<open>CHECK_GE(lambdaMax, lambdaMin)\<close> and the loop.
\<close>

definition DenselySampledSpectrum_ctor ::
    "SpectrumHandle \<Rightarrow> int \<Rightarrow> int \<Rightarrow> error + DenselySampledSpectrum" where
  "DenselySampledSpectrum_ctor s lambdaMin lambdaMax =
     (if \<not> int_range (lambdaMax - lambdaMin) \<or> \<not> int_range (lambdaMax - lambdaMin + 1)
      then Inl IntOverflow
      else
        (case vector_of_zeros (size_t_of (lambdaMax - lambdaMin + 1)) of
           Inl e \<Rightarrow> Inl e
         | Inr v0 \<Rightarrow>
             if \<not> lambdaMax \<ge> lambdaMin then Inl CheckFailed
             else (case DenselySampledSpectrum_fill s lambdaMin lambdaMax lambdaMin v0 of
                     Inl e \<Rightarrow> Inl e
                   | Inr v \<Rightarrow>
                       Inr \<lparr>ds_lambdaMin = lambdaMin, ds_lambdaMax = lambdaMax, ds_v = v\<rparr>)))"

subsection \<open>RGBSpectrum\<close>

record RGB =
  rgb_r :: real
  rgb_g :: real
  rgb_b :: real

text \<open>
  Modelled from the spec: \<^verbatim>\<open>RGB::operator*(Float)\<close> is declared in \<^verbatim>\<open>pbrt/util/color.h\<close>,
  which is not among the sources; it scales the three components.
\<close>

definition RGB_times :: "RGB \<Rightarrow> real \<Rightarrow> RGB" where
  "RGB_times c a = \<lparr>rgb_r = rgb_r c * a, rgb_g = rgb_g c * a, rgb_b = rgb_b c * a\<rparr>"

text \<open>
  \<^verbatim>\<open>RGBColorSpace\<close> (\<^verbatim>\<open>pbrt/util/colorspace.h\<close>) is used through its member \<^verbatim>\<open>illuminant\<close>
  and its method \<^verbatim>\<open>ToRGBCoeffs\<close>; the type of the illuminant and the type of the fitted
  coefficients are left open.
\<close>

record ('i, 'c) RGBColorSpace =
  cs_illuminant :: 'i
  cs_ToRGBCoeffs :: "RGB \<Rightarrow> 'c"

record ('i, 'c) RGBSpectrum =
  rs_rgb :: RGB
  rs_scale :: real
  rs_rsp :: 'c
  rs_illuminant :: 'i

text \<open>
  \<^verbatim>\<open>RGBSpectrum(const RGBColorSpace &cs, const RGB &rgb) : rgb(rgb), illuminant(&cs.illuminant) {
      Float m = std::max({rgb.r, rgb.g, rgb.b});
      scale = m > 0 ? 0.5f / m : 0;
      rsp = cs.ToRGBCoeffs(rgb * scale); }\<close>
\<close>

definition RGBSpectrum_ctor :: "('i, 'c) RGBColorSpace \<Rightarrow> RGB \<Rightarrow> ('i, 'c) RGBSpectrum" where
  "RGBSpectrum_ctor cs rgb =
     (let m = max (max (rgb_r rgb) (rgb_g rgb)) (rgb_b rgb);
          scale = (if m > 0 then 0.5 / m else 0)
      in \<lparr>rs_rgb = rgb, rs_scale = scale,
          rs_rsp = cs_ToRGBCoeffs cs (RGB_times rgb scale),
          rs_illuminant = cs_illuminant cs\<rparr>)"

subsection \<open>The spectral tables and the conversion to tristimulus values\<close>

text \<open>
  The loop of \<^verbatim>\<open>SpectrumToY\<close>,
  \<^verbatim>\<open>for (Float lambda = LambdaMin; lambda <= LambdaMax; ++lambda)
      y += SPDs::Y()(lambda) * s(lambda);\<close>
\<close>

function SpectrumToY_loop :: "Globals \<Rightarrow> SpectrumHandle \<Rightarrow> real \<Rightarrow> real \<Rightarrow> real" where
  "SpectrumToY_loop g s lambda y =
     (if lambda \<le> LambdaMax g
      then SpectrumToY_loop g s (lambda + 1) (y + sh_eval (SPDs_Y g) lambda * sh_eval s lambda)
      else y)"
  by pat_completeness auto
termination
proof (relation "measure (\<lambda>(g, s, lambda, y). nat (\<lfloor>LambdaMax g - lambda\<rfloor> + 1))")
  show "wf (measure (\<lambda>(g, s, lambda, y). nat (\<lfloor>LambdaMax g - lambda\<rfloor> + 1)))"
    by simp
next
  fix g :: Globals and s :: SpectrumHandle and lambda y :: real
  assume le: "lambda \<le> LambdaMax g"
  have "\<lfloor>LambdaMax g - (lambda + 1)\<rfloor> = \<lfloor>LambdaMax g - lambda\<rfloor> - 1"
    by linarith
  moreover have "0 \<le> \<lfloor>LambdaMax g - lambda\<rfloor>"
    using le by simp
  ultimately show
    "((g, s, lambda + 1, y + sh_eval (SPDs_Y g) lambda * sh_eval s lambda), (g, s, lambda, y))
       \<in> measure (\<lambda>(g, s, lambda, y). nat (\<lfloor>LambdaMax g - lambda\<rfloor> + 1))"
    by simp
qed

declare SpectrumToY_loop.simps [simp del]

definition SpectrumToY :: "Globals \<Rightarrow> SpectrumHandle \<Rightarrow> real" where
  "SpectrumToY g s = SpectrumToY_loop g s (LambdaMin g) 0 / CIE_Y_integral g"

record XYZ =
  xyz_X :: real
  xyz_Y :: real
  xyz_Z :: real

text \<open>
  Modelled from the spec: \<^verbatim>\<open>XYZ\<close> is declared in \<^verbatim>\<open>pbrt/util/color.h\<close>, which is not among
  the sources; a fresh \<^verbatim>\<open>XYZ\<close> is zero, and \<^verbatim>\<open>xyz / a\<close> divides the three components.
\<close>

definition XYZ_zero :: XYZ where
  "XYZ_zero = \<lparr>xyz_X = 0, xyz_Y = 0, xyz_Z = 0\<rparr>"

definition XYZ_div :: "XYZ \<Rightarrow> real \<Rightarrow> XYZ" where
  "XYZ_div c a = \<lparr>xyz_X = xyz_X c / a, xyz_Y = xyz_Y c / a, xyz_Z = xyz_Z c / a\<rparr>"

function SpectrumToXYZ_loop :: "Globals \<Rightarrow> SpectrumHandle \<Rightarrow> real \<Rightarrow> XYZ \<Rightarrow> XYZ" where
  "SpectrumToXYZ_loop g s lambda xyz =
     (if lambda \<le> LambdaMax g
      then SpectrumToXYZ_loop g s (lambda + 1)
             \<lparr>xyz_X = xyz_X xyz + sh_eval (SPDs_X g) lambda * sh_eval s lambda,
              xyz_Y = xyz_Y xyz + sh_eval (SPDs_Y g) lambda * sh_eval s lambda,
              xyz_Z = xyz_Z xyz + sh_eval (SPDs_Z g) lambda * sh_eval s lambda\<rparr>
      else xyz)"
  by pat_completeness auto
termination
proof (relation "measure (\<lambda>(g, s, lambda, xyz). nat (\<lfloor>LambdaMax g - lambda\<rfloor> + 1))")
  show "wf (measure (\<lambda>(g, s, lambda, xyz). nat (\<lfloor>LambdaMax g - lambda\<rfloor> + 1)))"
    by simp
next
  fix g :: Globals and s :: SpectrumHandle and lambda :: real and xyz :: XYZ
  assume le: "lambda \<le> LambdaMax g"
  have "\<lfloor>LambdaMax g - (lambda + 1)\<rfloor> = \<lfloor>LambdaMax g - lambda\<rfloor> - 1"
    by linarith
  moreover have "0 \<le> \<lfloor>LambdaMax g - lambda\<rfloor>"
    using le by simp
  ultimately show
    "((g, s, lambda + 1,
       \<lparr>xyz_X = xyz_X xyz + sh_eval (SPDs_X g) lambda * sh_eval s lambda,
        xyz_Y = xyz_Y xyz + sh_eval (SPDs_Y g) lambda * sh_eval s lambda,
        xyz_Z = xyz_Z xyz + sh_eval (SPDs_Z g) lambda * sh_eval s lambda\<rparr>),
      (g, s, lambda, xyz))
       \<in> measure (\<lambda>(g, s, lambda, xyz). nat (\<lfloor>LambdaMax g - lambda\<rfloor> + 1))"
    by simp
qed

declare SpectrumToXYZ_loop.simps [simp del]

definition SpectrumToXYZ :: "Globals \<Rightarrow> SpectrumHandle \<Rightarrow> XYZ" where
  "SpectrumToXYZ g s = XYZ_div (SpectrumToXYZ_loop g s (LambdaMin g) XYZ_zero) (CIE_Y_integral g)"

subsection \<open>SampledSpectrum: back to tristimulus values\<close>

text \<open>
  A floating-point division in the two methods below is \<open>fdiv\<close>, which reports a divisor
  that is zero instead of computing a quotient.
\<close>

definition fdiv :: "real \<Rightarrow> real \<Rightarrow> error + real" where
  "fdiv a b = (if b = 0 then Inl DivisionByZero else Inr (a / b))"

text \<open>
  The loop of \<^verbatim>\<open>SampledSpectrum::y\<close>, over the indices that are still to be visited:
  \<^verbatim>\<open>for (int i = 0; i < NSpectrumSamples; ++i) {
      if (lambda.pdf[i] == 0) continue;
      ySum += Ys[i] * v[i] / lambda.pdf[i]; }\<close>
\<close>

fun y_loop :: "real list \<Rightarrow> real list \<Rightarrow> real list \<Rightarrow> nat list \<Rightarrow> real \<Rightarrow> error + real" where
  "y_loop Ys v pdf [] ySum = Inr ySum"
| "y_loop Ys v pdf (i # rest) ySum =
     (if pdf ! i = 0 then y_loop Ys v pdf rest ySum
      else (case fdiv (Ys ! i * v ! i) (pdf ! i) of
              Inl e \<Rightarrow> Inl e
            | Inr q \<Rightarrow> y_loop Ys v pdf rest (ySum + q)))"

text \<open>
  \<^verbatim>\<open>Float SampledSpectrum::y(const SampledWavelengths &lambda) const\<close>, with the member \<^verbatim>\<open>v\<close>
  of the sampled spectrum as the argument \<open>v\<close>.
\<close>

definition SampledSpectrum_y ::
    "Globals \<Rightarrow> SampledSpectrum \<Rightarrow> SampledWavelengths \<Rightarrow> error + real" where
  "SampledSpectrum_y g v lam =
     (let Ys = sh_Sample (SPDs_Y g) lam in
      case y_loop Ys v (sw_pdf lam) [0..<NSpectrumSamples g] 0 of
        Inl e \<Rightarrow> Inl e
      | Inr ySum \<Rightarrow> fdiv ySum (CIE_Y_integral g * real (NSpectrumSamples g)))"

text \<open>The loop of \<^verbatim>\<open>SampledSpectrum::ToXYZ\<close>: three quotients for each index.\<close>

fun ToXYZ_loop ::
    "real list \<Rightarrow> real list \<Rightarrow> real list \<Rightarrow> real list \<Rightarrow> real list \<Rightarrow> nat list \<Rightarrow> XYZ
       \<Rightarrow> error + XYZ" where
  "ToXYZ_loop Xs Ys Zs v pdf [] xyz = Inr xyz"
| "ToXYZ_loop Xs Ys Zs v pdf (i # rest) xyz =
     (if pdf ! i = 0 then ToXYZ_loop Xs Ys Zs v pdf rest xyz
      else (case fdiv (Xs ! i * v ! i) (pdf ! i) of
              Inl e \<Rightarrow> Inl e
            | Inr qx \<Rightarrow>
        (case fdiv (Ys ! i * v ! i) (pdf ! i) of
              Inl e \<Rightarrow> Inl e
            | Inr qy \<Rightarrow>
        (case fdiv (Zs ! i * v ! i) (pdf ! i) of
              Inl e \<Rightarrow> Inl e
            | Inr qz \<Rightarrow>
                ToXYZ_loop Xs Ys Zs v pdf rest
                  \<lparr>xyz_X = xyz_X xyz + qx, xyz_Y = xyz_Y xyz + qy, xyz_Z = xyz_Z xyz + qz\<rparr>))))"

text \<open>
  \<^verbatim>\<open>XYZ SampledSpectrum::ToXYZ(const SampledWavelengths &lambda) const\<close>. The last line,
  \<^verbatim>\<open>xyz / (SPDs::CIE_Y_integral * NSpectrumSamples)\<close>, divides the three components by the
  same number.
\<close>

definition SampledSpectrum_ToXYZ ::
    "Globals \<Rightarrow> SampledSpectrum \<Rightarrow> SampledWavelengths \<Rightarrow> error + XYZ" where
  "SampledSpectrum_ToXYZ g v lam =
     (let Xs = sh_Sample (SPDs_X g) lam;
          Ys = sh_Sample (SPDs_Y g) lam;
          Zs = sh_Sample (SPDs_Z g) lam in
      case ToXYZ_loop Xs Ys Zs v (sw_pdf lam) [0..<NSpectrumSamples g] XYZ_zero of
        Inl e \<Rightarrow> Inl e
      | Inr xyz \<Rightarrow>
          (let d = CIE_Y_integral g * real (NSpectrumSamples g) in
           if d = 0 then Inl DivisionByZero else Inr (XYZ_div xyz d)))"

subsection \<open>Reverse lookup of a named spectrum\<close>

text \<open>The ten probe wavelengths of \<^verbatim>\<open>sampledLambdasMatch\<close>.\<close>

definition wls :: "real list" where
  "wls = [380, 402, 455, 503, 579, 610, 660, 692, 702, 715.5]"

text \<open>
  \<^verbatim>\<open>for (Float lambda : wls) if (a(lambda) != b(lambda)) return false;  return true;\<close>
\<close>

fun sampledLambdasMatch_loop :: "SpectrumHandle \<Rightarrow> SpectrumHandle \<Rightarrow> real list \<Rightarrow> bool" where
  "sampledLambdasMatch_loop a b [] = True"
| "sampledLambdasMatch_loop a b (lambda # rest) =
     (if sh_eval a lambda \<noteq> sh_eval b lambda then False
      else sampledLambdasMatch_loop a b rest)"

definition sampledLambdasMatch :: "SpectrumHandle \<Rightarrow> SpectrumHandle \<Rightarrow> bool" where
  "sampledLambdasMatch a b = sampledLambdasMatch_loop a b wls"

text \<open>
  \<^verbatim>\<open>for (const auto &spd : namedSPDs)
      if (sampledLambdasMatch(s, spd.second)) return spd.first;
  return "";\<close>
\<close>

fun FindMatchingNamed_loop :: "SpectrumHandle \<Rightarrow> (string \<times> SpectrumHandle) list \<Rightarrow> string" where
  "FindMatchingNamed_loop s [] = ''''"
| "FindMatchingNamed_loop s (spd # rest) =
     (if sampledLambdasMatch s (snd spd) then fst spd else FindMatchingNamed_loop s rest)"

definition FindMatchingNamed :: "Globals \<Rightarrow> SpectrumHandle \<Rightarrow> string" where
  "FindMatchingNamed g s = FindMatchingNamed_loop s (namedSPDs g)"

subsection \<open>Example inputs\<close>

text \<open>
  A spectrum with the same value at every wavelength, and a record of global constants
  with two samples per sampled spectrum; the examples below are evaluated on them.
\<close>

definition example_handle :: "real \<Rightarrow> SpectrumHandle" where
  "example_handle c = \<lparr>sh_eval = (\<lambda>l. c), sh_Sample = (\<lambda>lam. map (\<lambda>l. c) (sw_lambda lam))\<rparr>"

definition example_globals :: Globals where
  "example_globals =
     \<lparr>LambdaMin = 360, LambdaMax = 830, NSpectrumSamples = 2, CIE_Y_integral = 1,
      SPDs_X = example_handle 1, SPDs_Y = example_handle 3, SPDs_Z = example_handle 2,
      namedSPDs = [(''one'', example_handle 1), (''two'', example_handle 2)]\<rparr>"

section \<open>Properties\<close>

subsection \<open>The constructor of PiecewiseLinearSpectrum\<close>

lemma size_t_of_pred:
  assumes "0 < n" and "n < 2 ^ 64"
  shows "size_t_of (int n - 1) = n - 1"
proof -
  have "0 \<le> int n - 1" and "int n - 1 < 2 ^ 64"
    using assms by simp_all
  then have "(int n - 1) mod 2 ^ 64 = int n - 1"
    by simp
  then show ?thesis
    by (simp add: size_t_of_def nat_diff_distrib')
qed

lemma size_t_of_minus_one: "size_t_of (- 1) = 2 ^ 64 - 1"
  by (simp add: size_t_of_def)

lemma check_increasing_from:
  assumes "sorted_wrt (<) lam" and "lam \<noteq> []" and "length lam < 2 ^ 64"
  shows "i < length lam \<Longrightarrow> PiecewiseLinearSpectrum_check lam i = Inr ()"
proof (induction "length lam - i" arbitrary: i)
  case 0
  then show ?case by simp
next
  case (Suc k)
  have bound: "size_t_of (int (length lam) - 1) = length lam - 1"
    using assms by (simp add: size_t_of_pred)
  show ?case
  proof (cases "i < length lam - 1")
    case True
    then have lt: "lam ! i < lam ! (i + 1)"
      using assms(1) by (simp add: sorted_wrt_iff_nth_less)
    have "PiecewiseLinearSpectrum_check lam (i + 1) = Inr ()"
      using Suc True by simp
    moreover have "i < length lam" and "i + 1 < length lam"
      using True by simp_all
    ultimately show ?thesis
      using True lt bound by (subst PiecewiseLinearSpectrum_check.simps) simp
  next
    case False
    with bound show ?thesis
      by (subst PiecewiseLinearSpectrum_check.simps) simp
  qed
qed

lemma check_empty: "PiecewiseLinearSpectrum_check [] 0 = Inl OutOfBounds"
  by (subst PiecewiseLinearSpectrum_check.simps) (simp add: size_t_of_def)

text \<open>
  Claim C2. The constructor of \<open>PiecewiseLinearSpectrum\<close> is claimed to complete, without a
  failed assertion and without an index out of bounds, on every pair of arrays of equal
  length with strictly increasing wavelengths, the empty pair included. On the empty pair
  the bound \<^verbatim>\<open>lambda.size() - 1\<close> of its loop wraps around to \<open>2 ^ 64 - 1\<close>, the body runs
  with \<open>i = 0\<close>, and \<^verbatim>\<open>lambda[0]\<close> is read from an empty vector. The lemmas that follow the
  theorem show the rest of the claim: success on non-empty increasing arrays, and a failed
  assertion on a size mismatch or on a pair of wavelengths that does not increase.
\<close>

theorem PiecewiseLinearSpectrum_ctor_empty:
  "PiecewiseLinearSpectrum_ctor [] [] = Inl OutOfBounds"
  by (simp add: PiecewiseLinearSpectrum_ctor_def check_empty)

lemma PiecewiseLinearSpectrum_ctor_increasing:
  assumes "length l = length vals" and "sorted_wrt (<) l" and "l \<noteq> []" and "length l < 2 ^ 64"
  shows "PiecewiseLinearSpectrum_ctor l vals = Inr \<lparr>pls_lambda = l, pls_v = vals\<rparr>"
proof -
  have "PiecewiseLinearSpectrum_check l 0 = Inr ()"
    using assms by (intro check_increasing_from) auto
  with assms(1) show ?thesis
    by (simp add: PiecewiseLinearSpectrum_ctor_def)
qed

lemma PiecewiseLinearSpectrum_ctor_size_mismatch:
  "length l \<noteq> length vals \<Longrightarrow> PiecewiseLinearSpectrum_ctor l vals = Inl CheckFailed"
  by (simp add: PiecewiseLinearSpectrum_ctor_def)

lemma check_not_increasing_from:
  assumes "length lam < 2 ^ 64"
  shows "i \<le> j \<Longrightarrow> j + 1 < length lam \<Longrightarrow> \<not> lam ! j < lam ! (j + 1)
           \<Longrightarrow> PiecewiseLinearSpectrum_check lam i = Inl CheckFailed"
proof (induction "j - i" arbitrary: i)
  case 0
  then have "i = j" by simp
  moreover have "0 < length lam"
    using 0 by auto
  then have "size_t_of (int (length lam) - 1) = length lam - 1"
    using assms by (simp add: size_t_of_pred)
  ultimately show ?case
    using 0 by (subst PiecewiseLinearSpectrum_check.simps) simp
next
  case (Suc k)
  have "0 < length lam"
    using Suc by auto
  then have bound: "size_t_of (int (length lam) - 1) = length lam - 1"
    using assms by (simp add: size_t_of_pred)
  have rec: "PiecewiseLinearSpectrum_check lam (i + 1) = Inl CheckFailed"
    using Suc by simp
  have "i < length lam - 1" and "i < length lam" and "i + 1 < length lam"
    using Suc by simp_all
  with bound rec show ?case
    by (subst PiecewiseLinearSpectrum_check.simps) simp
qed

lemma PiecewiseLinearSpectrum_ctor_not_increasing:
  assumes "length l = length vals" and "length l < 2 ^ 64"
    and "j + 1 < length l" and "l ! j \<ge> l ! (j + 1)"
  shows "PiecewiseLinearSpectrum_ctor l vals = Inl CheckFailed"
proof -
  have "PiecewiseLinearSpectrum_check l 0 = Inl CheckFailed"
    using assms by (intro check_not_increasing_from [where j = j]) simp_all
  with assms(1) show ?thesis
    by (simp add: PiecewiseLinearSpectrum_ctor_def)
qed

lemma PiecewiseLinearSpectrum_ctor_Inr:
  assumes "PiecewiseLinearSpectrum_ctor l vals = Inr s" and "length l < 2 ^ 64"
  shows "s = \<lparr>pls_lambda = l, pls_v = vals\<rparr> \<and> length l = length vals \<and> l \<noteq> [] \<and> sorted_wrt (<) l"
proof -
  have len: "length l = length vals"
    using assms(1) by (auto simp: PiecewiseLinearSpectrum_ctor_def Let_def split: if_splits)
  have s: "s = \<lparr>pls_lambda = l, pls_v = vals\<rparr>"
    using assms(1) by (auto simp: PiecewiseLinearSpectrum_ctor_def Let_def split: if_splits sum.splits)
  have ne: "l \<noteq> []"
    using assms(1) len by (auto simp: PiecewiseLinearSpectrum_ctor_def check_empty)
  have "sorted_wrt (<) l"
  proof (rule ccontr)
    assume "\<not> sorted_wrt (<) l"
    then obtain j where "j + 1 < length l" and "\<not> l ! j < l ! (j + 1)"
      by (metis sorted_wrt_iff_nth_Suc_transp Suc_eq_plus1 transp_on_less)
    then have "PiecewiseLinearSpectrum_ctor l vals = Inl CheckFailed"
      using PiecewiseLinearSpectrum_ctor_not_increasing [OF len assms(2), of j] by simp
    with assms(1) show False by simp
  qed
  with s len ne show ?thesis by simp
qed

subsection \<open>Reading a spectrum file\<close>

lemma Read_pairs_increasing:
  assumes inc: "\<forall>k. k + 1 < length vals div 2 \<longrightarrow> vals ! (2 * k) < vals ! (2 * (k + 1))"
  shows "i \<le> length vals div 2 \<Longrightarrow> lam = map (\<lambda>k. vals ! (2 * k)) [0..<i]
           \<Longrightarrow> v = map (\<lambda>k. vals ! (2 * k + 1)) [0..<i]
           \<Longrightarrow> Read_pairs fn vals i lam v =
                 Inr (map (\<lambda>k. vals ! (2 * k)) [0..<length vals div 2],
                      map (\<lambda>k. vals ! (2 * k + 1)) [0..<length vals div 2])"
proof (induction "length vals div 2 - i" arbitrary: i lam v)
  case 0
  then have "i = length vals div 2" by simp
  with 0 show ?case
    by (subst Read_pairs.simps) simp
next
  case (Suc n)
  then have lt: "i < length vals div 2" by simp
  have guard: "\<not> (i > 0 \<and> vals ! (2 * i) \<le> last lam)"
  proof (cases i)
    case 0
    then show ?thesis by simp
  next
    case (Suc i')
    then have "last lam = vals ! (2 * i')"
      using Suc.prems(2) by simp
    moreover have "vals ! (2 * i') < vals ! (2 * (i' + 1))"
      using inc lt Suc by simp
    ultimately show ?thesis using Suc by simp
  qed
  have "Read_pairs fn vals (i + 1) (lam @ [vals ! (2 * i)]) (v @ [vals ! (2 * i + 1)]) =
          Inr (map (\<lambda>k. vals ! (2 * k)) [0..<length vals div 2],
               map (\<lambda>k. vals ! (2 * k + 1)) [0..<length vals div 2])"
    using Suc lt by (intro Suc.hyps(1)) simp_all
  with lt guard show ?case
    by (subst Read_pairs.simps) auto
qed

lemma Read_pairs_not_increasing:
  assumes j: "0 < j" "j < length vals div 2" and bad: "vals ! (2 * j) \<le> vals ! (2 * (j - 1))"
  shows "i \<le> j \<Longrightarrow> lam = map (\<lambda>k. vals ! (2 * k)) [0..<i]
           \<Longrightarrow> \<exists>k a b. Read_pairs fn vals i lam v = Inl (NotIncreasing fn k a b)"
proof (induction "j - i" arbitrary: i lam v)
  case 0
  then have ij: "i = j" by simp
  then obtain i' where i': "i = Suc i'"
    using j by (cases i) auto
  then have "last lam = vals ! (2 * (j - 1))"
    using 0 ij by simp
  with bad ij j show ?case
    by (subst Read_pairs.simps) simp
next
  case (Suc n)
  then have lt: "i < length vals div 2" using j by simp
  have "\<exists>k a b. Read_pairs fn vals (i + 1) (lam @ [vals ! (2 * i)]) (v @ [vals ! (2 * i + 1)]) =
          Inl (NotIncreasing fn k a b)"
    using Suc by (intro Suc.hyps(1)) simp_all
  with lt show ?case
    by (subst Read_pairs.simps) auto
qed

lemma Read_unreadable:
  "ReadFloatFile fn = None \<Longrightarrow> Read ReadFloatFile fn = Inr ([UnableToRead fn], None)"
  by (simp add: Read_def)

lemma Read_odd_count:
  "ReadFloatFile fn = Some vals \<Longrightarrow> odd (length vals)
     \<Longrightarrow> Read ReadFloatFile fn = Inr ([ExtraValue fn], None)"
  by (simp add: Read_def odd_iff_mod_2_eq_one)

lemma Read_not_increasing:
  assumes "ReadFloatFile fn = Some vals" and "even (length vals)"
    and "0 < j" and "j < length vals div 2" and "vals ! (2 * j) \<le> vals ! (2 * (j - 1))"
  shows "\<exists>k a b. Read ReadFloatFile fn = Inr ([NotIncreasing fn k a b], None)"
proof -
  obtain k a b where "Read_pairs fn vals 0 [] [] = Inl (NotIncreasing fn k a b)"
    using Read_pairs_not_increasing [OF assms(3-5), of 0 "[]" fn "[]"] by auto
  with assms(1,2) show ?thesis
    by (simp add: Read_def even_iff_mod_2_eq_zero)
qed

lemma Read_well_formed:
  assumes "ReadFloatFile fn = Some vals" and "even (length vals)" and "vals \<noteq> []"
    and "length vals < 2 ^ 64"
    and inc: "\<forall>k. k + 1 < length vals div 2 \<longrightarrow> vals ! (2 * k) < vals ! (2 * (k + 1))"
  shows "Read ReadFloatFile fn =
           Inr ([], Some \<lparr>pls_lambda = map (\<lambda>k. vals ! (2 * k)) [0..<length vals div 2],
                          pls_v = map (\<lambda>k. vals ! (2 * k + 1)) [0..<length vals div 2]\<rparr>)"
proof -
  let ?n = "length vals div 2"
  let ?lam = "map (\<lambda>k. vals ! (2 * k)) [0..<?n]"
  let ?v = "map (\<lambda>k. vals ! (2 * k + 1)) [0..<?n]"
  have pairs: "Read_pairs fn vals 0 [] [] = Inr (?lam, ?v)"
    using Read_pairs_increasing [OF inc, of 0 "[]" "[]" fn] by simp
  have "0 < ?n"
    using assms(2,3) by (cases vals rule: list.exhaust) (auto elim: evenE)
  then have ne: "?lam \<noteq> []" by simp
  have "sorted_wrt (<) ?lam"
    using inc by (simp add: sorted_wrt_iff_nth_Suc_transp)
  then have "PiecewiseLinearSpectrum_ctor ?lam ?v = Inr \<lparr>pls_lambda = ?lam, pls_v = ?v\<rparr>"
    using ne assms(4) by (intro PiecewiseLinearSpectrum_ctor_increasing) simp_all
  with pairs assms(1,2) show ?thesis
    by (simp add: Read_def even_iff_mod_2_eq_zero)
qed

text \<open>
  Claim C1. \<open>Read\<close> is claimed to return a spectrum holding exactly the pairs of every
  well-formed file (an even count of values, strictly increasing wavelengths). A readable
  file without any value is well-formed; there \<open>Read\<close> passes two empty vectors to the
  constructor, whose loop reads \<^verbatim>\<open>lambda[0]\<close> out of bounds, and no spectrum is returned.
  The lemmas before the theorem show the rest of the claim: a warning and an empty optional
  for an unreadable file, for an odd count and for a wavelength that does not increase, and
  the spectrum of the pairs for a well-formed file that is not empty.
\<close>

theorem Read_empty_file: "Read (\<lambda>fn. Some []) fn = Inl OutOfBounds"
proof -
  have "Read_pairs fn [] 0 [] [] = Inr ([], [])"
    by (subst Read_pairs.simps) simp
  then show ?thesis
    by (simp add: Read_def PiecewiseLinearSpectrum_ctor_def check_empty)
qed

subsection \<open>Spectrum to tristimulus values\<close>

lemma steps_Suc:
  fixes lambda hi :: real
  assumes "lambda \<le> hi"
  shows "nat (\<lfloor>hi - lambda\<rfloor> + 1) = Suc (nat (\<lfloor>hi - (lambda + 1)\<rfloor> + 1))"
proof -
  have "\<lfloor>hi - (lambda + 1)\<rfloor> = \<lfloor>hi - lambda\<rfloor> - 1"
    by linarith
  moreover have "0 \<le> \<lfloor>hi - lambda\<rfloor>"
    using assms by simp
  ultimately show ?thesis
    by (simp add: Suc_nat_eq_nat_zadd1)
qed

lemma steps_zero:
  fixes lambda hi :: real
  assumes "\<not> lambda \<le> hi"
  shows "nat (\<lfloor>hi - lambda\<rfloor> + 1) = 0"
proof -
  have "\<lfloor>hi - lambda\<rfloor> + 1 \<le> 0"
    using assms by linarith
  then show ?thesis by (rule nat_le_0)
qed

lemma steps_iff:
  fixes lo hi :: real
  shows "k < nat (\<lfloor>hi - lo\<rfloor> + 1) \<longleftrightarrow> lo + real k \<le> hi"
proof -
  have "k < nat (\<lfloor>hi - lo\<rfloor> + 1) \<longleftrightarrow> int k \<le> \<lfloor>hi - lo\<rfloor>"
    by linarith
  also have "\<dots> \<longleftrightarrow> of_int (int k) \<le> hi - lo"
    by (simp only: le_floor_iff)
  also have "\<dots> \<longleftrightarrow> lo + real k \<le> hi"
    by auto
  finally show ?thesis .
qed

lemma SpectrumToY_loop_sum:
  "SpectrumToY_loop g s lambda y =
     y + (\<Sum>k<nat (\<lfloor>LambdaMax g - lambda\<rfloor> + 1).
            sh_eval (SPDs_Y g) (lambda + real k) * sh_eval s (lambda + real k))"
proof (induction g s lambda y rule: SpectrumToY_loop.induct)
  case (1 g s lambda y)
  show ?case
  proof (cases "lambda \<le> LambdaMax g")
    case True
    have "SpectrumToY_loop g s lambda y =
            SpectrumToY_loop g s (lambda + 1) (y + sh_eval (SPDs_Y g) lambda * sh_eval s lambda)"
      using True by (subst SpectrumToY_loop.simps) simp
    also have "\<dots> = y + sh_eval (SPDs_Y g) lambda * sh_eval s lambda +
        (\<Sum>k<nat (\<lfloor>LambdaMax g - (lambda + 1)\<rfloor> + 1).
            sh_eval (SPDs_Y g) (lambda + 1 + real k) * sh_eval s (lambda + 1 + real k))"
      using "1.IH" [OF True] .
    also have "\<dots> = y + (\<Sum>k<Suc (nat (\<lfloor>LambdaMax g - (lambda + 1)\<rfloor> + 1)).
            sh_eval (SPDs_Y g) (lambda + real k) * sh_eval s (lambda + real k))"
      by (simp add: sum.lessThan_Suc_shift add.assoc add.commute [of 1] del: sum.lessThan_Suc)
    finally show ?thesis
      by (simp only: steps_Suc [OF True])
  next
    case False
    then show ?thesis
      by (subst SpectrumToY_loop.simps) (simp add: steps_zero)
  qed
qed

lemma SpectrumToXYZ_loop_sum:
  "SpectrumToXYZ_loop g s lambda xyz =
     \<lparr>xyz_X = xyz_X xyz + (\<Sum>k<nat (\<lfloor>LambdaMax g - lambda\<rfloor> + 1).
                sh_eval (SPDs_X g) (lambda + real k) * sh_eval s (lambda + real k)),
      xyz_Y = xyz_Y xyz + (\<Sum>k<nat (\<lfloor>LambdaMax g - lambda\<rfloor> + 1).
                sh_eval (SPDs_Y g) (lambda + real k) * sh_eval s (lambda + real k)),
      xyz_Z = xyz_Z xyz + (\<Sum>k<nat (\<lfloor>LambdaMax g - lambda\<rfloor> + 1).
                sh_eval (SPDs_Z g) (lambda + real k) * sh_eval s (lambda + real k))\<rparr>"
proof (induction g s lambda xyz rule: SpectrumToXYZ_loop.induct)
  case (1 g s lambda xyz)
  show ?case
  proof (cases "lambda \<le> LambdaMax g")
    case True
    let ?n = "nat (\<lfloor>LambdaMax g - (lambda + 1)\<rfloor> + 1)"
    have shift: "f lambda + (\<Sum>k<?n. f (lambda + 1 + real k)) = (\<Sum>k<Suc ?n. f (lambda + real k))"
      for f :: "real \<Rightarrow> real"
      by (simp add: sum.lessThan_Suc_shift add.assoc add.commute [of 1] del: sum.lessThan_Suc)
    have "SpectrumToXYZ_loop g s lambda xyz =
            SpectrumToXYZ_loop g s (lambda + 1)
              \<lparr>xyz_X = xyz_X xyz + sh_eval (SPDs_X g) lambda * sh_eval s lambda,
               xyz_Y = xyz_Y xyz + sh_eval (SPDs_Y g) lambda * sh_eval s lambda,
               xyz_Z = xyz_Z xyz + sh_eval (SPDs_Z g) lambda * sh_eval s lambda\<rparr>"
      using True by (subst SpectrumToXYZ_loop.simps) simp
    also have "\<dots> =
      \<lparr>xyz_X = xyz_X xyz + (\<Sum>k<Suc ?n.
                sh_eval (SPDs_X g) (lambda + real k) * sh_eval s (lambda + real k)),
       xyz_Y = xyz_Y xyz + (\<Sum>k<Suc ?n.
                sh_eval (SPDs_Y g) (lambda + real k) * sh_eval s (lambda + real k)),
       xyz_Z = xyz_Z xyz + (\<Sum>k<Suc ?n.
                sh_eval (SPDs_Z g) (lambda + real k) * sh_eval s (lambda + real k))\<rparr>"
      unfolding "1.IH" [OF True]
      using shift [of "\<lambda>l. sh_eval (SPDs_X g) l * sh_eval s l"]
            shift [of "\<lambda>l. sh_eval (SPDs_Y g) l * sh_eval s l"]
            shift [of "\<lambda>l. sh_eval (SPDs_Z g) l * sh_eval s l"]
      by (simp add: add.assoc del: sum.lessThan_Suc)
    finally show ?thesis
      by (simp only: steps_Suc [OF True])
  next
    case False
    then show ?thesis
      by (subst SpectrumToXYZ_loop.simps) (simp add: steps_zero)
  qed
qed

lemma wavelength_indices:
  fixes lo hi :: real
  shows "{k::nat. lo + real k \<le> hi} = {..<nat (\<lfloor>hi - lo\<rfloor> + 1)}"
  by (auto simp: steps_iff)

text \<open>
  Claim C3. For every spectrum \<open>s\<close>, \<open>SpectrumToY\<close> is the sum of \<open>Y(lambda) * s(lambda)\<close> over the
  wavelengths \<open>LambdaMin\<close>, \<open>LambdaMin + 1\<close>, \<dots> that do not exceed \<open>LambdaMax\<close>, divided by
  \<open>CIE_Y_integral\<close>; the three components of \<open>SpectrumToXYZ\<close> are the same sums against
  the curves \<open>X\<close>, \<open>Y\<close> and \<open>Z\<close>, divided by the same constant.
\<close>

theorem SpectrumToY_SpectrumToXYZ_Riemann_sum:
  "SpectrumToY g s =
     (\<Sum>k | LambdaMin g + real k \<le> LambdaMax g.
        sh_eval (SPDs_Y g) (LambdaMin g + real k) * sh_eval s (LambdaMin g + real k))
       / CIE_Y_integral g
   \<and> SpectrumToXYZ g s =
     \<lparr>xyz_X = (\<Sum>k | LambdaMin g + real k \<le> LambdaMax g.
                sh_eval (SPDs_X g) (LambdaMin g + real k) * sh_eval s (LambdaMin g + real k))
               / CIE_Y_integral g,
      xyz_Y = (\<Sum>k | LambdaMin g + real k \<le> LambdaMax g.
                sh_eval (SPDs_Y g) (LambdaMin g + real k) * sh_eval s (LambdaMin g + real k))
               / CIE_Y_integral g,
      xyz_Z = (\<Sum>k | LambdaMin g + real k \<le> LambdaMax g.
                sh_eval (SPDs_Z g) (LambdaMin g + real k) * sh_eval s (LambdaMin g + real k))
               / CIE_Y_integral g\<rparr>"
  by (simp add: SpectrumToY_def SpectrumToXYZ_def SpectrumToY_loop_sum SpectrumToXYZ_loop_sum
      wavelength_indices XYZ_div_def XYZ_zero_def)

subsection \<open>SampledSpectrum to tristimulus values\<close>

lemma y_loop_sum:
  "y_loop Ys v pdf idx ySum =
     Inr (ySum + (\<Sum>i\<leftarrow>idx. if pdf ! i = 0 then 0 else Ys ! i * v ! i / pdf ! i))"
  by (induction idx arbitrary: ySum) (simp_all add: fdiv_def add.assoc)

lemma ToXYZ_loop_sum:
  "ToXYZ_loop Xs Ys Zs v pdf idx xyz =
     Inr \<lparr>xyz_X = xyz_X xyz + (\<Sum>i\<leftarrow>idx. if pdf ! i = 0 then 0 else Xs ! i * v ! i / pdf ! i),
          xyz_Y = xyz_Y xyz + (\<Sum>i\<leftarrow>idx. if pdf ! i = 0 then 0 else Ys ! i * v ! i / pdf ! i),
          xyz_Z = xyz_Z xyz + (\<Sum>i\<leftarrow>idx. if pdf ! i = 0 then 0 else Zs ! i * v ! i / pdf ! i)\<rparr>"
  by (induction idx arbitrary: xyz) (simp_all add: fdiv_def add.assoc)

lemma sum_list_upt: "(\<Sum>i\<leftarrow>[0..<n]. f i) = (\<Sum>i<n. f i)" for f :: "nat \<Rightarrow> real"
  by (simp add: interv_sum_list_conv_sum_set_nat atLeast0LessThan)

text \<open>
  Claim C4. \<open>SampledSpectrum::y\<close> and \<open>SampledSpectrum::ToXYZ\<close> never divide by zero: they
  return a value, not the error \<open>DivisionByZero\<close>. Each sample contributes its value times the
  matching curve divided by its PDF, a sample whose PDF is \<open>0\<close> contributes \<open>0\<close>, and the sum
  is divided by \<open>CIE_Y_integral * NSpectrumSamples\<close>. The two constants of that last divisor
  are not zero.
\<close>

theorem SampledSpectrum_y_ToXYZ_guarded:
  assumes "CIE_Y_integral g \<noteq> 0" and "0 < NSpectrumSamples g"
  shows "SampledSpectrum_y g v lam =
           Inr ((\<Sum>i<NSpectrumSamples g.
                   if sw_pdf lam ! i = 0 then 0
                   else sh_Sample (SPDs_Y g) lam ! i * v ! i / sw_pdf lam ! i)
                / (CIE_Y_integral g * real (NSpectrumSamples g)))
       \<and> SampledSpectrum_ToXYZ g v lam =
           Inr \<lparr>xyz_X = (\<Sum>i<NSpectrumSamples g.
                   if sw_pdf lam ! i = 0 then 0
                   else sh_Sample (SPDs_X g) lam ! i * v ! i / sw_pdf lam ! i)
                / (CIE_Y_integral g * real (NSpectrumSamples g)),
                xyz_Y = (\<Sum>i<NSpectrumSamples g.
                   if sw_pdf lam ! i = 0 then 0
                   else sh_Sample (SPDs_Y g) lam ! i * v ! i / sw_pdf lam ! i)
                / (CIE_Y_integral g * real (NSpectrumSamples g)),
                xyz_Z = (\<Sum>i<NSpectrumSamples g.
                   if sw_pdf lam ! i = 0 then 0
                   else sh_Sample (SPDs_Z g) lam ! i * v ! i / sw_pdf lam ! i)
                / (CIE_Y_integral g * real (NSpectrumSamples g))\<rparr>"
proof -
  have d: "CIE_Y_integral g * real (NSpectrumSamples g) \<noteq> 0"
    using assms by simp
  have "SampledSpectrum_y g v lam =
           Inr ((\<Sum>i<NSpectrumSamples g.
                   if sw_pdf lam ! i = 0 then 0
                   else sh_Sample (SPDs_Y g) lam ! i * v ! i / sw_pdf lam ! i)
                / (CIE_Y_integral g * real (NSpectrumSamples g)))"
    using d by (simp add: SampledSpectrum_y_def y_loop_sum sum_list_upt fdiv_def)
  moreover have "SampledSpectrum_ToXYZ g v lam =
           Inr \<lparr>xyz_X = (\<Sum>i<NSpectrumSamples g.
                   if sw_pdf lam ! i = 0 then 0
                   else sh_Sample (SPDs_X g) lam ! i * v ! i / sw_pdf lam ! i)
                / (CIE_Y_integral g * real (NSpectrumSamples g)),
                xyz_Y = (\<Sum>i<NSpectrumSamples g.
                   if sw_pdf lam ! i = 0 then 0
                   else sh_Sample (SPDs_Y g) lam ! i * v ! i / sw_pdf lam ! i)
                / (CIE_Y_integral g * real (NSpectrumSamples g)),
                xyz_Z = (\<Sum>i<NSpectrumSamples g.
                   if sw_pdf lam ! i = 0 then 0
                   else sh_Sample (SPDs_Z g) lam ! i * v ! i / sw_pdf lam ! i)
                / (CIE_Y_integral g * real (NSpectrumSamples g))\<rparr>"
    using d by (simp add: SampledSpectrum_ToXYZ_def ToXYZ_loop_sum sum_list_upt XYZ_div_def
        XYZ_zero_def Let_def)
  ultimately show ?thesis by simp
qed

theorem SampledSpectrum_y_ToXYZ_guarded_witness:
  "CIE_Y_integral example_globals \<noteq> 0 \<and> 0 < NSpectrumSamples example_globals
   \<and> SampledSpectrum_y example_globals [3, 5] \<lparr>sw_lambda = [500, 600], sw_pdf = [0, 1 / 2]\<rparr>
       = Inr 15
   \<and> SampledSpectrum_ToXYZ example_globals [3, 5] \<lparr>sw_lambda = [500, 600], sw_pdf = [0, 1 / 2]\<rparr>
       = Inr \<lparr>xyz_X = 5, xyz_Y = 15, xyz_Z = 10\<rparr>"
proof -
  have h1: "CIE_Y_integral example_globals \<noteq> 0"
    by (simp add: example_globals_def)
  have h2: "0 < NSpectrumSamples example_globals"
    by (simp add: example_globals_def)
  show ?thesis
    using SampledSpectrum_y_ToXYZ_guarded
            [OF h1 h2, of "[3, 5]" "\<lparr>sw_lambda = [500, 600], sw_pdf = [0, 1 / 2]\<rparr>"]
    by (simp add: example_globals_def example_handle_def lessThan_Suc eval_nat_numeral)
qed

subsection \<open>Evaluating a PiecewiseLinearSpectrum\<close>

lemma FindInterval_last_true:
  assumes "i < sz - 1" and "pred i" and "\<forall>j. i < j \<and> j < sz - 1 \<longrightarrow> \<not> pred j"
  shows "FindInterval sz pred = i"
proof -
  have split: "[0..<sz - 1] = [0..<i] @ i # [Suc i..<sz - 1]"
    using assms(1) by (metis le0 less_imp_le_nat upt_add_eq_append upt_conv_Cons
        ordered_cancel_comm_monoid_diff_class.add_diff_inverse add.commute)
  have e: "filter pred (rev [Suc i..<sz - 1]) = []"
    using assms(3) by (auto simp: filter_empty_conv)
  have "filter pred (rev [0..<sz - 1]) = filter pred (rev ([0..<i] @ i # [Suc i..<sz - 1]))"
    by (simp only: split [symmetric])
  also have "\<dots> = i # filter pred (rev [0..<i])"
    using assms(2) e by simp
  finally have "filter pred (rev [0..<sz - 1]) = i # filter pred (rev [0..<i])" .
  then show ?thesis
    by (simp add: FindInterval_def)
qed

lemma increasing_nth_le:
  assumes "sorted_wrt (<) (lam :: real list)" and "i \<le> j" and "j < length lam"
  shows "lam ! i \<le> lam ! j"
proof (cases "i = j")
  case True
  then show ?thesis by simp
next
  case False
  then have "lam ! i < lam ! j"
    using assms by (simp add: sorted_wrt_nth_less)
  then show ?thesis by simp
qed

text \<open>
  Claim C5. For a non-empty \<open>PiecewiseLinearSpectrum\<close> (arrays of equal length, strictly
  increasing wavelengths, as the constructor checks), the value at a wavelength at or below
  the first sample wavelength is the first sample value, the value at or above the last
  sample wavelength is the last sample value, and the value strictly between two adjacent
  sample wavelengths is the linear interpolation of their two values.
\<close>

theorem PiecewiseLinearSpectrum_eval_clamp_interpolate:
  assumes ne: "pls_lambda s \<noteq> []"
    and len: "length (pls_lambda s) = length (pls_v s)"
    and inc: "sorted_wrt (<) (pls_lambda s)"
  shows "(l \<le> hd (pls_lambda s) \<longrightarrow> PiecewiseLinearSpectrum_eval s l = hd (pls_v s))
       \<and> (l \<ge> last (pls_lambda s) \<longrightarrow> PiecewiseLinearSpectrum_eval s l = last (pls_v s))
       \<and> (\<forall>i. i + 1 < length (pls_lambda s) \<and> pls_lambda s ! i < l \<and> l < pls_lambda s ! (i + 1)
              \<longrightarrow> PiecewiseLinearSpectrum_eval s l =
                    (1 - (l - pls_lambda s ! i) / (pls_lambda s ! (i + 1) - pls_lambda s ! i))
                      * pls_v s ! i
                    + (l - pls_lambda s ! i) / (pls_lambda s ! (i + 1) - pls_lambda s ! i)
                      * pls_v s ! (i + 1))"
proof (intro conjI impI allI)
  assume "l \<le> hd (pls_lambda s)"
  then show "PiecewiseLinearSpectrum_eval s l = hd (pls_v s)"
    using ne by (simp add: PiecewiseLinearSpectrum_eval_def)
next
  let ?lam = "pls_lambda s"
  assume ge: "l \<ge> last ?lam"
  show "PiecewiseLinearSpectrum_eval s l = last (pls_v s)"
  proof (cases "l \<le> hd ?lam")
    case False
    then show ?thesis
      using ne ge by (simp add: PiecewiseLinearSpectrum_eval_def)
  next
    case True
    have "length ?lam = 1"
    proof (rule ccontr)
      assume "length ?lam \<noteq> 1"
      then have "1 < length ?lam"
        using ne by (cases ?lam) auto
      then have "?lam ! 0 < ?lam ! (length ?lam - 1)"
        using inc by (simp add: sorted_wrt_nth_less)
      then have "hd ?lam < last ?lam"
        using ne by (simp add: hd_conv_nth last_conv_nth)
      with True ge show False by simp
    qed
    then have "length (pls_v s) = 1"
      using len by simp
    then have "hd (pls_v s) = last (pls_v s)"
      by (cases "pls_v s") auto
    with True ne show ?thesis
      by (simp add: PiecewiseLinearSpectrum_eval_def)
  qed
next
  fix i
  let ?lam = "pls_lambda s"
  assume a: "i + 1 < length ?lam \<and> ?lam ! i < l \<and> l < ?lam ! (i + 1)"
  have "hd ?lam = ?lam ! 0" and "last ?lam = ?lam ! (length ?lam - 1)"
    using ne by (simp_all add: hd_conv_nth last_conv_nth)
  moreover have "?lam ! 0 \<le> ?lam ! i"
    using inc a by (intro increasing_nth_le) simp_all
  moreover have "?lam ! (i + 1) \<le> ?lam ! (length ?lam - 1)"
    using inc a by (intro increasing_nth_le) auto
  ultimately have out: "\<not> l \<le> hd ?lam" "\<not> l \<ge> last ?lam"
    using a by simp_all
  have "\<forall>j. i < j \<and> j < length ?lam - 1 \<longrightarrow> \<not> ?lam ! j \<le> l"
  proof (intro allI impI)
    fix j assume j: "i < j \<and> j < length ?lam - 1"
    have "?lam ! (i + 1) \<le> ?lam ! j"
      using inc j by (intro increasing_nth_le) auto
    with a show "\<not> ?lam ! j \<le> l" by simp
  qed
  then have "FindInterval (length ?lam) (\<lambda>index. ?lam ! index \<le> l) = i"
    using a by (intro FindInterval_last_true) auto
  with out ne show "PiecewiseLinearSpectrum_eval s l =
      (1 - (l - ?lam ! i) / (?lam ! (i + 1) - ?lam ! i)) * pls_v s ! i
      + (l - ?lam ! i) / (?lam ! (i + 1) - ?lam ! i) * pls_v s ! (i + 1)"
    by (simp add: PiecewiseLinearSpectrum_eval_def Lerp_def)
qed

theorem PiecewiseLinearSpectrum_eval_clamp_interpolate_witness:
  "pls_lambda \<lparr>pls_lambda = [400, 500, 700], pls_v = [1, 3, 2]\<rparr> \<noteq> []
   \<and> length (pls_lambda \<lparr>pls_lambda = [400, 500, 700], pls_v = [1, 3, 2]\<rparr>)
       = length (pls_v \<lparr>pls_lambda = [400, 500, 700], pls_v = [1, 3, 2]\<rparr>)
   \<and> sorted_wrt (<) (pls_lambda \<lparr>pls_lambda = [400, 500, 700], pls_v = [1, 3, 2]\<rparr>)
   \<and> PiecewiseLinearSpectrum_eval \<lparr>pls_lambda = [400, 500, 700], pls_v = [1, 3, 2]\<rparr> 550 = 11 / 4"
proof -
  let ?s = "\<lparr>pls_lambda = [400, 500, 700], pls_v = [1, 3, 2]\<rparr>"
  have h1: "pls_lambda ?s \<noteq> []" by simp
  have h2: "length (pls_lambda ?s) = length (pls_v ?s)" by simp
  have h3: "sorted_wrt (<) (pls_lambda ?s)" by simp
  have "1 + 1 < length (pls_lambda ?s) \<and> pls_lambda ?s ! 1 < 550 \<and> 550 < pls_lambda ?s ! (1 + 1)"
    by simp
  then have "PiecewiseLinearSpectrum_eval ?s 550 =
      (1 - (550 - pls_lambda ?s ! 1) / (pls_lambda ?s ! (1 + 1) - pls_lambda ?s ! 1))
         * pls_v ?s ! 1
       + (550 - pls_lambda ?s ! 1) / (pls_lambda ?s ! (1 + 1) - pls_lambda ?s ! 1)
         * pls_v ?s ! (1 + 1)"
    using PiecewiseLinearSpectrum_eval_clamp_interpolate [OF h1 h2 h3, of 550] by blast
  then have "PiecewiseLinearSpectrum_eval ?s 550 = 11 / 4"
    by simp
  with h1 h2 h3 show ?thesis by blast
qed

subsection \<open>The scale of an RGBSpectrum\<close>

text \<open>
  Claim C6 says that for every RGB triple the constructor stores a scale with
  \<open>max(rgb) * scale = 0.5\<close>. The source guards the quotient, \<^verbatim>\<open>m > 0 ? 0.5f / m : 0\<close>: for
  black, whose largest component is \<open>0\<close>, the scale is \<open>0\<close> and the product is \<open>0\<close>.
\<close>

theorem RGBSpectrum_ctor_black_counterexample:
  "\<not> (max (max (rgb_r \<lparr>rgb_r = 0, rgb_g = 0, rgb_b = 0\<rparr>) (rgb_g \<lparr>rgb_r = 0, rgb_g = 0, rgb_b = 0\<rparr>))
            (rgb_b \<lparr>rgb_r = 0, rgb_g = 0, rgb_b = 0\<rparr>)
        * rs_scale (RGBSpectrum_ctor \<lparr>cs_illuminant = example_handle 1, cs_ToRGBCoeffs = (\<lambda>c. c)\<rparr>
                      \<lparr>rgb_r = 0, rgb_g = 0, rgb_b = 0\<rparr>) = 0.5)"
  by (simp add: RGBSpectrum_ctor_def)

text \<open>
  Claim C6, amended. The constructor of \<open>RGBSpectrum\<close> stores the illuminant of the colour
  space; when the largest component of the RGB triple is positive, that component times the
  stored scale is \<open>0.5\<close>; when it is not positive, the stored scale is \<open>0\<close>.
\<close>

theorem RGBSpectrum_ctor_scale:
  "rs_illuminant (RGBSpectrum_ctor cs rgb) = cs_illuminant cs
   \<and> (max (max (rgb_r rgb) (rgb_g rgb)) (rgb_b rgb) > 0 \<longrightarrow>
        max (max (rgb_r rgb) (rgb_g rgb)) (rgb_b rgb) * rs_scale (RGBSpectrum_ctor cs rgb) = 0.5)
   \<and> (max (max (rgb_r rgb) (rgb_g rgb)) (rgb_b rgb) \<le> 0 \<longrightarrow>
        rs_scale (RGBSpectrum_ctor cs rgb) = 0)"
proof -
  define m where "m = max (max (rgb_r rgb) (rgb_g rgb)) (rgb_b rgb)"
  have scale: "rs_scale (RGBSpectrum_ctor cs rgb) = (if m > 0 then 0.5 / m else 0)"
    unfolding RGBSpectrum_ctor_def Let_def m_def by (simp only: RGBSpectrum.select_convs)
  have illum: "rs_illuminant (RGBSpectrum_ctor cs rgb) = cs_illuminant cs"
    unfolding RGBSpectrum_ctor_def Let_def by (simp only: RGBSpectrum.select_convs)
  have "m > 0 \<longrightarrow> m * rs_scale (RGBSpectrum_ctor cs rgb) = 0.5"
    by (simp add: scale)
  moreover have "m \<le> 0 \<longrightarrow> rs_scale (RGBSpectrum_ctor cs rgb) = 0"
    by (simp add: scale)
  ultimately show ?thesis
    using illum unfolding m_def by blast
qed

theorem RGBSpectrum_ctor_scale_witness:
  "max (max (rgb_r \<lparr>rgb_r = 1, rgb_g = 4, rgb_b = 2\<rparr>) (rgb_g \<lparr>rgb_r = 1, rgb_g = 4, rgb_b = 2\<rparr>))
       (rgb_b \<lparr>rgb_r = 1, rgb_g = 4, rgb_b = 2\<rparr>) > 0
   \<and> rs_scale (RGBSpectrum_ctor \<lparr>cs_illuminant = example_handle 1, cs_ToRGBCoeffs = (\<lambda>c. c)\<rparr>
                  \<lparr>rgb_r = 1, rgb_g = 4, rgb_b = 2\<rparr>) = 1 / 8
   \<and> max (max (rgb_r \<lparr>rgb_r = 0, rgb_g = - 1, rgb_b = 0\<rparr>) (rgb_g \<lparr>rgb_r = 0, rgb_g = - 1, rgb_b = 0\<rparr>))
       (rgb_b \<lparr>rgb_r = 0, rgb_g = - 1, rgb_b = 0\<rparr>) \<le> 0
   \<and> rs_scale (RGBSpectrum_ctor \<lparr>cs_illuminant = example_handle 1, cs_ToRGBCoeffs = (\<lambda>c. c)\<rparr>
                  \<lparr>rgb_r = 0, rgb_g = - 1, rgb_b = 0\<rparr>) = 0"
  using RGBSpectrum_ctor_scale
          [of "\<lparr>cs_illuminant = example_handle 1, cs_ToRGBCoeffs = (\<lambda>c. c)\<rparr>"
              "\<lparr>rgb_r = 1, rgb_g = 4, rgb_b = 2\<rparr>"]
        RGBSpectrum_ctor_scale
          [of "\<lparr>cs_illuminant = example_handle 1, cs_ToRGBCoeffs = (\<lambda>c. c)\<rparr>"
              "\<lparr>rgb_r = 0, rgb_g = - 1, rgb_b = 0\<rparr>"]
  by simp

subsection \<open>Sampling product and scaled spectra\<close>

text \<open>
  Claim C7. For every \<open>SampledWavelengths\<close>, the sample of a \<open>ProductSpectrum\<close> is, component
  by component, the product of the samples of its two operands, and the sample of a
  \<open>ScaledSpectrum\<close> is its scale times the sample of its operand. The samples of the operands
  are sampled spectra: they have \<open>NSpectrumSamples\<close> components.
\<close>

theorem Product_Scaled_Sample_componentwise:
  assumes "length (sh_Sample (ps_s1 p) lam) = NSpectrumSamples g"
    and "length (sh_Sample (ps_s2 p) lam) = NSpectrumSamples g"
    and "length (sh_Sample (sc_s sp) lam) = NSpectrumSamples g"
  shows "length (ProductSpectrum_Sample p lam) = NSpectrumSamples g
       \<and> (\<forall>i<NSpectrumSamples g.
             ProductSpectrum_Sample p lam ! i
               = sh_Sample (ps_s1 p) lam ! i * sh_Sample (ps_s2 p) lam ! i)
       \<and> length (ScaledSpectrum_Sample sp lam) = NSpectrumSamples g
       \<and> (\<forall>i<NSpectrumSamples g.
             ScaledSpectrum_Sample sp lam ! i = sc_scale sp * sh_Sample (sc_s sp) lam ! i)"
  using assms
  by (simp add: ProductSpectrum_Sample_def ScaledSpectrum_Sample_def
      SampledSpectrum_times_def SampledSpectrum_scaled_def)

theorem Product_Scaled_Sample_componentwise_witness:
  "length (sh_Sample (example_handle 3) \<lparr>sw_lambda = [500, 600], sw_pdf = [1, 1]\<rparr>)
     = NSpectrumSamples example_globals
   \<and> length (sh_Sample (example_handle 5) \<lparr>sw_lambda = [500, 600], sw_pdf = [1, 1]\<rparr>)
     = NSpectrumSamples example_globals
   \<and> ProductSpectrum_Sample \<lparr>ps_s1 = example_handle 3, ps_s2 = example_handle 5\<rparr>
        \<lparr>sw_lambda = [500, 600], sw_pdf = [1, 1]\<rparr> ! 1 = 15
   \<and> ScaledSpectrum_Sample \<lparr>sc_scale = 2, sc_s = example_handle 5\<rparr>
        \<lparr>sw_lambda = [500, 600], sw_pdf = [1, 1]\<rparr> ! 1 = 10"
proof -
  let ?lam = "\<lparr>sw_lambda = [500, 600], sw_pdf = [1, 1]\<rparr>"
  let ?p = "\<lparr>ps_s1 = example_handle 3, ps_s2 = example_handle 5\<rparr>"
  let ?sp = "\<lparr>sc_scale = 2, sc_s = example_handle 5\<rparr>"
  have h1: "length (sh_Sample (ps_s1 ?p) ?lam) = NSpectrumSamples example_globals"
    by (simp add: example_handle_def example_globals_def)
  have h2: "length (sh_Sample (ps_s2 ?p) ?lam) = NSpectrumSamples example_globals"
    by (simp add: example_handle_def example_globals_def)
  have h3: "length (sh_Sample (sc_s ?sp) ?lam) = NSpectrumSamples example_globals"
    by (simp add: example_handle_def example_globals_def)
  have i: "(1::nat) < NSpectrumSamples example_globals"
    by (simp add: example_globals_def)
  have "ProductSpectrum_Sample ?p ?lam ! 1
          = sh_Sample (ps_s1 ?p) ?lam ! 1 * sh_Sample (ps_s2 ?p) ?lam ! 1"
    and "ScaledSpectrum_Sample ?sp ?lam ! 1 = sc_scale ?sp * sh_Sample (sc_s ?sp) ?lam ! 1"
    using Product_Scaled_Sample_componentwise [OF h1 h2 h3] i by blast+
  then show ?thesis
    using h1 h2 by (simp add: example_handle_def)
qed

subsection \<open>Blackbody\<close>

text \<open>
  Two facts about the blackbody spectrum that do not depend on floating-point arithmetic:
  the radiance is \<open>0\<close> when the temperature is not positive, and each component of the
  sample is the scale times \<open>Blackbody\<close> at the wavelength of that component.
\<close>

lemma Blackbody_nonpositive_temperature: "T \<le> 0 \<Longrightarrow> Blackbody lambda T = 0"
  by (simp add: Blackbody_def)

lemma BlackbodySpectrum_Sample_nth:
  "i < NSpectrumSamples g \<Longrightarrow>
     BlackbodySpectrum_Sample g b lam ! i = bb_scale b * Blackbody (sw_lambda lam ! i) (bb_T b)"
  by (simp add: BlackbodySpectrum_Sample_def)

lemma BlackbodySpectrum_Sample_length:
  "length (BlackbodySpectrum_Sample g b lam) = NSpectrumSamples g"
  by (simp add: BlackbodySpectrum_Sample_def)

subsection \<open>Reverse lookup of a named spectrum\<close>

lemma sampledLambdasMatch_loop_iff:
  "sampledLambdasMatch_loop a b ls \<longleftrightarrow> (\<forall>l\<in>set ls. sh_eval a l = sh_eval b l)"
  by (induction ls) auto

lemma sampledLambdasMatch_iff:
  "sampledLambdasMatch a b \<longleftrightarrow>
     (\<forall>l\<in>{380, 402, 455, 503, 579, 610, 660, 692, 702, 715.5}. sh_eval a l = sh_eval b l)"
  by (simp add: sampledLambdasMatch_def sampledLambdasMatch_loop_iff wls_def)

lemma FindMatchingNamed_loop_nonempty:
  "FindMatchingNamed_loop s reg \<noteq> '''' \<Longrightarrow>
     \<exists>spd. (FindMatchingNamed_loop s reg, spd) \<in> set reg \<and> sampledLambdasMatch s spd"
  by (induction reg) (auto split: if_splits)

lemma FindMatchingNamed_loop_no_match:
  "\<forall>spd\<in>set reg. \<not> sampledLambdasMatch s (snd spd) \<Longrightarrow> FindMatchingNamed_loop s reg = ''''"
  by (induction reg) auto

text \<open>
  Claim C9. \<open>FindMatchingNamed\<close> returns a non-empty name only if the spectrum registered
  under that name has the same value as \<open>s\<close> at each of the ten probe wavelengths, and it
  returns the empty string when no registered spectrum agrees with \<open>s\<close> at all ten. The
  registry is a \<^verbatim>\<open>std::map\<close>: its names are distinct.
\<close>

theorem FindMatchingNamed_probes:
  assumes "distinct (map fst (namedSPDs g))"
  shows "(FindMatchingNamed g s \<noteq> '''' \<longrightarrow>
           (\<exists>spd. map_of (namedSPDs g) (FindMatchingNamed g s) = Some spd
              \<and> (\<forall>l\<in>{380, 402, 455, 503, 579, 610, 660, 692, 702, 715.5}.
                    sh_eval s l = sh_eval spd l)))
       \<and> ((\<forall>spd\<in>set (namedSPDs g).
              \<exists>l\<in>{380, 402, 455, 503, 579, 610, 660, 692, 702, 715.5}.
                sh_eval s l \<noteq> sh_eval (snd spd) l)
            \<longrightarrow> FindMatchingNamed g s = '''')"
proof (intro conjI impI)
  assume "FindMatchingNamed g s \<noteq> ''''"
  then obtain spd where "(FindMatchingNamed g s, spd) \<in> set (namedSPDs g)"
      and "sampledLambdasMatch s spd"
    using FindMatchingNamed_loop_nonempty [of s "namedSPDs g"]
    by (auto simp: FindMatchingNamed_def)
  then show "\<exists>spd. map_of (namedSPDs g) (FindMatchingNamed g s) = Some spd
      \<and> (\<forall>l\<in>{380, 402, 455, 503, 579, 610, 660, 692, 702, 715.5}. sh_eval s l = sh_eval spd l)"
    using assms by (auto simp: sampledLambdasMatch_iff)
next
  assume "\<forall>spd\<in>set (namedSPDs g).
            \<exists>l\<in>{380, 402, 455, 503, 579, 610, 660, 692, 702, 715.5}.
              sh_eval s l \<noteq> sh_eval (snd spd) l"
  then have "\<forall>spd\<in>set (namedSPDs g). \<not> sampledLambdasMatch s (snd spd)"
    unfolding sampledLambdasMatch_iff by blast
  then show "FindMatchingNamed g s = ''''"
    by (simp add: FindMatchingNamed_def FindMatchingNamed_loop_no_match)
qed

theorem FindMatchingNamed_probes_witness:
  "distinct (map fst (namedSPDs example_globals))
   \<and> FindMatchingNamed example_globals (example_handle 2) = ''two''
   \<and> map_of (namedSPDs example_globals) ''two'' = Some (example_handle 2)
   \<and> FindMatchingNamed example_globals (example_handle 7) = ''''"
proof -
  have h: "distinct (map fst (namedSPDs example_globals))"
    by (simp add: example_globals_def)
  have two: "FindMatchingNamed example_globals (example_handle 2) = ''two''"
    by (simp add: FindMatchingNamed_def example_globals_def sampledLambdasMatch_def wls_def
        example_handle_def)
  have none: "\<forall>spd\<in>set (namedSPDs example_globals).
            \<exists>l\<in>{380, 402, 455, 503, 579, 610, 660, 692, 702, 715.5}.
              sh_eval (example_handle 7) l \<noteq> sh_eval (snd spd) l"
    by (simp add: example_globals_def example_handle_def)
  have "FindMatchingNamed example_globals (example_handle 7) = ''''"
    using FindMatchingNamed_probes [OF h, of "example_handle 7"] none by blast
  moreover have "map_of (namedSPDs example_globals) ''two'' = Some (example_handle 2)"
    using FindMatchingNamed_probes [OF h, of "example_handle 2"] two
    by (simp add: example_globals_def)
  ultimately show ?thesis
    using h two by simp
qed

subsection \<open>The table of a DenselySampledSpectrum\<close>








text \<open>
  Whenever \<open>lambdaMax\<close> is below \<open>lambdaMin\<close> by two or more, the allocation fails and the
  assertion of the body is not reached.
\<close>

lemma DenselySampledSpectrum_ctor_allocation_before_check:
  assumes "lambdaMax \<le> lambdaMin - 2" and "- (2 ^ 31) \<le> lambdaMax - lambdaMin"
  shows "DenselySampledSpectrum_ctor s lambdaMin lambdaMax = Inl AllocationFailed"
proof -
  let ?c = "lambdaMax - lambdaMin + 1"
  have r: "int_range (lambdaMax - lambdaMin)" "int_range ?c"
    using assms by (simp_all add: int_range_def)
  have "?c mod 2 ^ 64 = ?c + 2 ^ 64"
  proof -
    have A: "(?c + 2 ^ 64) mod 2 ^ 64 = ?c + 2 ^ 64"
      using assms by (intro mod_pos_pos_trivial) simp_all
    have B: "(?c + 2 ^ 64) mod 2 ^ 64 = ?c mod 2 ^ 64"
      by (rule mod_add_self2)
    from B [symmetric] A show ?thesis by (rule trans)
  qed
  then have "size_t_of ?c = nat (?c + 2 ^ 64)"
    by (simp add: size_t_of_def)
  moreover have "(2 :: nat) ^ 64 \<le> 4 * nat (?c + 2 ^ 64)"
  proof -
    have "(2 :: int) ^ 64 \<le> 4 * (?c + 2 ^ 64)"
      using assms by simp
    then have "int (2 ^ 64) \<le> int (4 * nat (?c + 2 ^ 64))"
      using assms by simp
    then show ?thesis by (simp only: of_nat_le_iff)
  qed
  ultimately have "vector_of_zeros (size_t_of ?c) = Inl AllocationFailed"
    by (simp add: vector_of_zeros_def)
  with r show ?thesis
    by (simp add: DenselySampledSpectrum_ctor_def)
qed




end
